theory Spec2Isabelle
  imports Main "HOL-Library.Word"
begin

section \<open>Go values shared by the packages\<close>

text \<open>
  A Go \<open>error\<close> is an interface value with one method, \<open>Error() string\<close>. No function
  modelled here inspects the dynamic type of an error it receives, so an error value is
  identified with the message its \<open>Error\<close> method returns. \<open>errors.New(text)\<close> builds
  the error whose message is \<open>text\<close>.
\<close>

datatype error = ErrorValue (Error: string)

definition errors_New :: "string \<Rightarrow> error" where
  "errors_New text = ErrorValue text"

section \<open>Package config (api/config/config.go)\<close>

text \<open>
  The struct \<open>Config\<close>, field by field. Go's \<open>int\<close> ports are never computed with,
  so they are plain integers; \<open>[]string\<close> is a list of strings, the nil slice being the
  empty list.
\<close>

record Config =
  StartGrpcServer :: bool
  StartGrpcServices :: "string list"
  GrpcServerPort :: int
  NewGrpcServerPort :: int
  StartJSONServer :: bool
  StartNewJSONServer :: bool
  JSONServerPort :: int
  NewJSONServerPort :: int
  StartNodeService :: bool
  StartMeshService :: bool

definition defaultStartGRPCServer :: bool where "defaultStartGRPCServer = False"
definition defaultGRPCServerPort :: int where "defaultGRPCServerPort = 9091"
definition defaultNewGRPCServerPort :: int where "defaultNewGRPCServerPort = 9092"
definition defaultStartJSONServer :: bool where "defaultStartJSONServer = False"
definition defaultStartNewJSONServer :: bool where "defaultStartNewJSONServer = False"
definition defaultJSONServerPort :: int where "defaultJSONServerPort = 9090"
definition defaultNewJSONServerPort :: int where "defaultNewJSONServerPort = 9093"
definition defaultStartNodeService :: bool where "defaultStartNodeService = False"
definition defaultStartMeshService :: bool where "defaultStartMeshService = False"

definition DefaultConfig :: Config where
  "DefaultConfig =
     \<lparr> StartGrpcServer = defaultStartGRPCServer,
       StartGrpcServices = [],
       GrpcServerPort = defaultGRPCServerPort,
       NewGrpcServerPort = defaultNewGRPCServerPort,
       StartJSONServer = defaultStartJSONServer,
       StartNewJSONServer = defaultStartNewJSONServer,
       JSONServerPort = defaultJSONServerPort,
       NewJSONServerPort = defaultNewJSONServerPort,
       StartNodeService = defaultStartNodeService,
       StartMeshService = defaultStartMeshService \<rparr>"

text \<open>
  \<open>ParseServicesList\<close> has a pointer receiver: it writes the service flags into the
  configuration it is called on and returns an error or nil. The model passes the
  configuration through and returns it with the error (\<open>None\<close> is nil).

  The \<open>for ... range\<close> loop over \<open>s.StartGrpcServices\<close> is the recursion
  \<open>ParseServicesList_range\<close> over the remaining names; the \<open>default\<close> case of the
  \<open>switch\<close> returns from the whole method, with the flags written so far.
\<close>

fun ParseServicesList_range :: "string list \<Rightarrow> Config \<Rightarrow> Config \<times> error option" where
  "ParseServicesList_range [] s = (s, None)"
| "ParseServicesList_range (svc # rest) s =
     (if svc = ''mesh'' then ParseServicesList_range rest (s\<lparr>StartMeshService := True\<rparr>)
      else if svc = ''node'' then ParseServicesList_range rest (s\<lparr>StartNodeService := True\<rparr>)
      else (s, Some (errors_New (''unrecognized GRPC service requested: '' @ svc))))"

definition ParseServicesList :: "Config \<Rightarrow> Config \<times> error option" where
  "ParseServicesList s =
     (case ParseServicesList_range (StartGrpcServices s) s of
        (s', Some err) \<Rightarrow> (s', Some err)
      | (s', None) \<Rightarrow>
          if StartNewJSONServer s' \<and> \<not> StartNodeService s'
          then (s', Some (errors_New
                  ''must enable at least one GRPC service along with JSON gateway service''))
          else (s', None))"

text \<open>The names the \<open>switch\<close> has a case for.\<close>

definition recognized :: "string \<Rightarrow> bool" where
  "recognized svc \<longleftrightarrow> svc = ''mesh'' \<or> svc = ''node''"

section \<open>Package grpcserver: values exchanged with gRPC and the collaborators\<close>

text \<open>
  The gRPC status codes the handlers use, and the errors a handler returns: either a
  status error made by \<open>status.Error\<close> or \<open>status.Errorf\<close> (a code and a message), or
  an error received from a collaborator and returned as it is. The two formats given to
  \<open>status.Errorf\<close> contain no verb and come with no argument, so the message is the
  format itself.
\<close>

datatype codes = InvalidArgument | Unimplemented | Internal

datatype rpc_error = status_Error codes string | Passed error

definition status_Errorf :: "codes \<Rightarrow> string \<Rightarrow> rpc_error" where
  "status_Errorf c format = status_Error c format"

text \<open>
  \<open>rpcstatus.Status\<close> with its \<open>int32\<close> code (a 32-bit word, read as signed by
  \<open>sint\<close>); \<open>code.Code_OK\<close> is 0.
\<close>

record rpcstatus_Status =
  Code :: "32 word"

definition Code_OK :: "32 word" where
  "Code_OK = 0"

text \<open>
  \<open>types.LayerID\<close> is read through its \<open>Uint64\<close> method only, whose result goes into
  a \<open>uint64\<close> field: a layer id is the 64-bit value that method returns.
\<close>

datatype LayerID = LayerID (Uint64: "64 word")

subsection \<open>The protobuf messages of the node service\<close>

record SimpleString =
  Value :: string

text \<open>A pointer field of a message is an option: \<open>None\<close> is nil.\<close>

record EchoRequest =
  Msg :: "SimpleString option"

record EchoResponse =
  Msg :: "SimpleString option"

datatype StatusRequest = StatusRequest

record NodeStatus =
  ConnectedPeers :: "64 word"
  IsSynced :: bool
  SyncedLayer :: "64 word"
  TopLayer :: "64 word"
  VerifiedLayer :: "64 word"

record StatusResponse =
  Status :: "NodeStatus option"

subsection \<open>The collaborators of the node service\<close>

text \<open>
  \<open>NodeService\<close> holds five interface values. \<open>Status\<close> calls getters on four of them;
  each of these collaborators is the record of what its getters return when \<open>Status\<close>
  runs. No modelled handler calls \<open>Network\<close>.
\<close>

datatype NetworkAPI = NetworkAPI

record TxAPI =
  LatestLayer :: LayerID
  LatestLayerInState :: LayerID

record GenesisTimeAPI =
  GetCurrentLayer :: LayerID

record PeerCounter =
  PeerCount :: "64 word"

record Syncer =
  IsSynced :: bool

record NodeService =
  Network :: NetworkAPI
  Tx :: TxAPI
  GenTime :: GenesisTimeAPI
  PeerCounter :: PeerCounter
  Syncer :: Syncer

subsection \<open>Server streams\<close>

text \<open>
  A server stream is its \<open>Send\<close> method over the state \<open>'c\<close> of the connection:
  \<open>Send m c\<close> returns the error of the call (\<open>None\<close> is nil) and the connection
  afterwards. A streaming handler takes the connection and returns it with its own error.
\<close>

type_synonym ('m, 'c) ServerStream = "'m \<Rightarrow> 'c \<Rightarrow> error option \<times> 'c"

section \<open>The node service (api/grpcserver/node_service.go)\<close>

text \<open>
  A unary handler returns \<open>(response, nil)\<close> or \<open>(nil, err)\<close>: a value of
  \<open>rpc_error + response\<close>, \<open>Inl\<close> the error. Methods are named by their receiver type,
  since both services and their collaborators have methods of the same name. The calls
  to the logger are left out.
\<close>

definition NodeService_Echo :: "NodeService \<Rightarrow> EchoRequest \<Rightarrow> rpc_error + EchoResponse" where
  "NodeService_Echo s inp =
     (case EchoRequest.Msg inp of
        Some msg \<Rightarrow> Inr \<lparr>EchoResponse.Msg = Some \<lparr>Value = Value msg\<rparr>\<rparr>
      | None \<Rightarrow> Inl (status_Errorf InvalidArgument ''Must include `Msg`''))"

definition NodeService_Status :: "NodeService \<Rightarrow> StatusRequest \<Rightarrow> rpc_error + StatusResponse" where
  "NodeService_Status s request =
     Inr \<lparr>Status = Some
       \<lparr>ConnectedPeers = PeerCount (PeerCounter s),
        NodeStatus.IsSynced = Syncer.IsSynced (Syncer s),
        SyncedLayer = Uint64 (LatestLayer (Tx s)),
        TopLayer = Uint64 (GetCurrentLayer (GenTime s)),
        VerifiedLayer = Uint64 (LatestLayerInState (Tx s))\<rparr>\<rparr>"

text \<open>
  The two streaming stubs. The request messages are never read and nothing is built for
  the stream: the request type and the message type of the stream are type parameters.
\<close>

definition NodeService_StatusStream ::
  "NodeService \<Rightarrow> 'req \<Rightarrow> ('m, 'c) ServerStream \<Rightarrow> 'c \<Rightarrow> rpc_error option \<times> 'c" where
  "NodeService_StatusStream s request stream c = (None, c)"

definition NodeService_ErrorStream ::
  "NodeService \<Rightarrow> 'req \<Rightarrow> ('m, 'c) ServerStream \<Rightarrow> 'c \<Rightarrow> rpc_error option \<times> 'c" where
  "NodeService_ErrorStream s request stream c = (None, c)"

text \<open>
  A stream that also keeps the messages its \<open>Send\<close> was called with, in the order of the
  calls, whatever each call returned.
\<close>

definition recording :: "('m, 'c) ServerStream \<Rightarrow> ('m, 'c \<times> 'm list) ServerStream" where
  "recording stream m = (\<lambda>(c, sent). case stream m c of (err, c') \<Rightarrow> (err, (c', sent @ [m])))"

text \<open>
  The connection after \<open>Send\<close> was called with each message of a list in turn, whatever
  the calls returned.
\<close>

definition after_sends :: "('m, 'c) ServerStream \<Rightarrow> 'm list \<Rightarrow> 'c \<Rightarrow> 'c" where
  "after_sends stream ms c = fold (\<lambda>m c'. snd (stream m c')) ms c"

section \<open>The smesher service (type \<open>SmesherService\<close> of package grpcserver)\<close>

subsection \<open>Messages and collaborator values\<close>

text \<open>
  The structs of the packages \<open>pb\<close>, \<open>activation\<close> and \<open>post\<close> are given with the fields the
  handlers read or write, and with the types the assignments and conversions in the
  handlers imply. Go's \<open>uint\<close> and \<open>int\<close> are 64-bit words (the 64-bit targets), \<open>[]byte\<close>
  is a list of 8-bit words.
\<close>

record AccountId =
  Address :: "8 word list"

record StartSmeshingRequest =
  Coinbase :: "AccountId option"

record StartSmeshingResponse =
  Status :: "rpcstatus_Status option"

text \<open>
  A compute provider of the backend. Its method \<open>Benchmark() (int, error)\<close> is the pair
  the call returns for this provider.
\<close>

record ComputeProvider =
  Id :: "64 word"
  Model :: string
  ComputeAPI :: "64 word"
  Benchmark :: "64 word \<times> error option"

record PostComputeProvider =
  Id :: "32 word"
  Model :: string
  ComputeApi :: "32 word"
  Performance :: "64 word"

text \<open>
  \<open>[]*pb.PostComputeProvider\<close> is a slice of pointers: a list of options, \<open>None\<close> the
  nil that \<open>make\<close> fills it with.
\<close>

record PostComputeProvidersResponse =
  PostComputeProvider :: "PostComputeProvider option list"

record PostOptions =
  DataDir :: string
  DataSize :: "64 word"
  Append :: bool
  Throttle :: bool
  ComputeProviderId :: "64 word"

record PostStatus =
  LastOptions :: "PostOptions option"
  InitInProgress :: bool
  BytesWritten :: "64 word"
  ErrorType :: "64 word"
  ErrorMessage :: string

record PostData =
  Path :: string
  DataSize :: "64 word"
  Append :: bool
  Throttle :: bool
  ProviderId :: "32 word"

record pb_PostStatus =
  InitInProgress :: bool
  BytesWritten :: "64 word"
  ErrorType :: "32 word"
  ErrorMessage :: string
  PostData :: "PostData option"

record PostDataCreationProgressStreamResponse =
  Status :: "pb_PostStatus option"

text \<open>
  The two collaborators. Of \<open>api.PostAPI\<close> the handlers modelled here read the provider
  list and the progress channel; the channel is the list of the statuses it delivers
  before it is closed (the channel carries pointers, and none of them is taken to be
  nil). \<open>api.SmeshingAPI\<close> changes the backend: \<open>StartSmeshing addr b\<close> returns the error
  of the call and the backend state after it, over any type \<open>'b\<close> of backend states and
  any type \<open>'a\<close> of addresses.
\<close>

record PostAPI =
  PostComputeProviders :: "ComputeProvider list"
  PostDataCreationProgressStream :: "PostStatus list"

record ('a, 'b) SmeshingAPI =
  StartSmeshing :: "'a \<Rightarrow> 'b \<Rightarrow> error option \<times> 'b"

record ('a, 'b) SmesherService =
  post :: PostAPI
  smeshing :: "('a, 'b) SmeshingAPI"

subsection \<open>Handlers\<close>

text \<open>
  \<open>types.BytesToAddress\<close> belongs to package \<open>common/types\<close>; the handler is modelled for
  any such conversion, the parameter \<open>BytesToAddress\<close>.
\<close>

definition SmesherService_StartSmeshing ::
  "(8 word list \<Rightarrow> 'a) \<Rightarrow> ('a, 'b) SmesherService \<Rightarrow> StartSmeshingRequest \<Rightarrow> 'b
     \<Rightarrow> (rpc_error + StartSmeshingResponse) \<times> 'b" where
  "SmesherService_StartSmeshing BytesToAddress s inp b =
     (case Coinbase inp of
        None \<Rightarrow> (Inl (status_Errorf InvalidArgument ''`Coinbase` must be provided''), b)
      | Some coinbase \<Rightarrow>
          (let addr = BytesToAddress (Address coinbase)
           in case StartSmeshing (smeshing s) addr b of
                (Some err, b') \<Rightarrow> (Inl (status_Error Internal (Error err)), b')
              | (None, b') \<Rightarrow>
                  (Inr \<lparr>StartSmeshingResponse.Status = Some \<lparr>Code = Code_OK\<rparr>\<rparr>, b')))"

text \<open>
  \<open>MinGas\<close> and \<open>SetMinGas\<close> read nothing of the request and build no response: both
  message types are type parameters.
\<close>

definition SmesherService_MinGas :: "('a, 'b) SmesherService \<Rightarrow> 'req \<Rightarrow> rpc_error + 'resp" where
  "SmesherService_MinGas s inp = Inl (status_Errorf Unimplemented ''this endpoint is not implemented'')"

definition SmesherService_SetMinGas :: "('a, 'b) SmesherService \<Rightarrow> 'req \<Rightarrow> rpc_error + 'resp" where
  "SmesherService_SetMinGas s inp = Inl (status_Errorf Unimplemented ''this endpoint is not implemented'')"

text \<open>
  The loop of \<open>PostComputeProviders\<close>: \<open>i\<close> is the index of the provider at the head of
  the remaining list, \<open>res\<close> the slice being filled. \<open>uint32(p.Id)\<close> and
  \<open>pb.ComputeApiClass(p.ComputeAPI)\<close> keep the low 32 bits, \<open>uint64(hs)\<close> keeps all 64.
\<close>

fun PostComputeProviders_range ::
  "ComputeProvider list \<Rightarrow> nat \<Rightarrow> PostComputeProvider option list
     \<Rightarrow> rpc_error + PostComputeProvider option list" where
  "PostComputeProviders_range [] i res = Inr res"
| "PostComputeProviders_range (p # rest) i res =
     (case Benchmark p of
        (hs, Some err) \<Rightarrow> Inl (Passed err)
      | (hs, None) \<Rightarrow>
          PostComputeProviders_range rest (Suc i)
            (res[i := Some \<lparr>PostComputeProvider.Id = ucast (ComputeProvider.Id p),
                             PostComputeProvider.Model = ComputeProvider.Model p,
                             ComputeApi = ucast (ComputeAPI p),
                             Performance = ucast hs\<rparr>]))"

definition SmesherService_PostComputeProviders ::
  "('a, 'b) SmesherService \<Rightarrow> 'req \<Rightarrow> rpc_error + PostComputeProvidersResponse" where
  "SmesherService_PostComputeProviders s inp =
     (let providers = PostComputeProviders (post s);
          res = replicate (length providers) None
      in case PostComputeProviders_range providers 0 res of
           Inl err \<Rightarrow> Inl err
         | Inr res' \<Rightarrow> Inr \<lparr>PostComputeProvider = res'\<rparr>)"

definition statusToPbStatus :: "PostStatus \<Rightarrow> pb_PostStatus" where
  "statusToPbStatus status =
     \<lparr>pb_PostStatus.InitInProgress = PostStatus.InitInProgress status,
      pb_PostStatus.BytesWritten = PostStatus.BytesWritten status,
      pb_PostStatus.ErrorType = ucast (PostStatus.ErrorType status),
      pb_PostStatus.ErrorMessage = PostStatus.ErrorMessage status,
      PostData =
        (case LastOptions status of
           None \<Rightarrow> None
         | Some opts \<Rightarrow>
             Some \<lparr>Path = DataDir opts,
                   PostData.DataSize = PostOptions.DataSize opts,
                   PostData.Append = PostOptions.Append opts,
                   PostData.Throttle = PostOptions.Throttle opts,
                   ProviderId = ucast (ComputeProviderId opts)\<rparr>)\<rparr>"

text \<open>
  The \<open>for ... range\<close> over the progress channel: one \<open>Send\<close> for each status received, and
  the first error of a \<open>Send\<close> is returned at once.
\<close>

fun PostDataCreationProgressStream_range ::
  "PostStatus list \<Rightarrow> (PostDataCreationProgressStreamResponse, 'c) ServerStream \<Rightarrow> 'c
     \<Rightarrow> rpc_error option \<times> 'c" where
  "PostDataCreationProgressStream_range [] stream c = (None, c)"
| "PostDataCreationProgressStream_range (status # rest) stream c =
     (case stream \<lparr>PostDataCreationProgressStreamResponse.Status = Some (statusToPbStatus status)\<rparr> c of
        (Some err, c') \<Rightarrow> (Some (Passed err), c')
      | (None, c') \<Rightarrow> PostDataCreationProgressStream_range rest stream c')"

definition SmesherService_PostDataCreationProgressStream ::
  "('a, 'b) SmesherService \<Rightarrow> 'req \<Rightarrow> (PostDataCreationProgressStreamResponse, 'c) ServerStream
     \<Rightarrow> 'c \<Rightarrow> rpc_error option \<times> 'c" where
  "SmesherService_PostDataCreationProgressStream s request stream c =
     PostDataCreationProgressStream_range (PostDataCreationProgressStream (post s)) stream c"

section \<open>Properties of the configuration\<close>

lemmas config_defaults =
  DefaultConfig_def defaultStartGRPCServer_def defaultGRPCServerPort_def
  defaultNewGRPCServerPort_def defaultStartJSONServer_def defaultStartNewJSONServer_def
  defaultJSONServerPort_def defaultNewJSONServerPort_def defaultStartNodeService_def
  defaultStartMeshService_def

text \<open>The loop writes the two service flags only, and only to true.\<close>

lemma ParseServicesList_range_frame:
  "ParseServicesList_range xs s = (s', r) \<Longrightarrow>
     s' = s\<lparr>StartNodeService := StartNodeService s', StartMeshService := StartMeshService s'\<rparr>
     \<and> (StartNodeService s \<longrightarrow> StartNodeService s')
     \<and> (StartMeshService s \<longrightarrow> StartMeshService s')"
proof (induction xs arbitrary: s)
  case Nil
  then show ?case by simp
next
  case (Cons svc rest)
  show ?case
  proof (cases "svc = ''mesh''")
    case True
    with Cons.prems have "ParseServicesList_range rest (s\<lparr>StartMeshService := True\<rparr>) = (s', r)"
      by simp
    from Cons.IH [OF this] show ?thesis by (cases s, cases s') auto
  next
    case nm: False
    show ?thesis
    proof (cases "svc = ''node''")
      case True
      with nm Cons.prems have "ParseServicesList_range rest (s\<lparr>StartNodeService := True\<rparr>) = (s', r)"
        by simp
      from Cons.IH [OF this] show ?thesis by (cases s, cases s') auto
    next
      case False
      with nm Cons.prems show ?thesis by auto
    qed
  qed
qed

lemma ParseServicesList_fst:
  "fst (ParseServicesList s) = fst (ParseServicesList_range (StartGrpcServices s) s)"
  by (simp add: ParseServicesList_def split: prod.splits option.splits)

text \<open>
  Claim C10. For every configuration, \<open>ParseServicesList\<close> changes at most the two
  flags \<open>StartNodeService\<close> and \<open>StartMeshService\<close>: the configuration it leaves is the
  one it was called on with these two fields replaced, so the server start flags, the
  four ports and the list of requested services are as before, whether an error is
  returned or not; and a flag that was true stays true, so a change is from false to true.
\<close>

theorem ParseServicesList_frame:
  "fst (ParseServicesList s) =
     s\<lparr>StartNodeService := StartNodeService (fst (ParseServicesList s)),
       StartMeshService := StartMeshService (fst (ParseServicesList s))\<rparr>
   \<and> (StartNodeService s \<longrightarrow> StartNodeService (fst (ParseServicesList s)))
   \<and> (StartMeshService s \<longrightarrow> StartMeshService (fst (ParseServicesList s)))"
proof -
  obtain s' r where run: "ParseServicesList_range (StartGrpcServices s) s = (s', r)"
    by (cases "ParseServicesList_range (StartGrpcServices s) s")
  then have "fst (ParseServicesList s) = s'"
    by (simp add: ParseServicesList_fst)
  with ParseServicesList_range_frame [OF run] show ?thesis by simp
qed

theorem ParseServicesList_frame_witness:
  "StartNodeService (DefaultConfig\<lparr>StartGrpcServices := [''mesh''], StartNodeService := True\<rparr>)
   \<and> StartNodeService
        (fst (ParseServicesList (DefaultConfig\<lparr>StartGrpcServices := [''mesh''], StartNodeService := True\<rparr>)))"
proof -
  let ?c = "DefaultConfig\<lparr>StartGrpcServices := [''mesh''], StartNodeService := True\<rparr>"
  have h: "StartNodeService ?c" by simp
  from ParseServicesList_frame [of ?c] h show ?thesis by blast
qed

text \<open>Recognized names at the front of the list are applied one after the other.\<close>

lemma ParseServicesList_range_append:
  "\<forall>svc\<in>set xs. recognized svc \<Longrightarrow>
   ParseServicesList_range (xs @ ys) s =
   ParseServicesList_range ys
     (s\<lparr>StartNodeService := StartNodeService s \<or> ''node'' \<in> set xs,
        StartMeshService := StartMeshService s \<or> ''mesh'' \<in> set xs\<rparr>)"
proof (induction xs arbitrary: s)
  case Nil
  then show ?case by simp
next
  case (Cons svc rest)
  then show ?case by (cases s) (auto simp: recognized_def)
qed

text \<open>
  Claim C1, as the code has it. For every configuration whose list of requested services
  contains an unrecognized name, \<open>ParseServicesList\<close> returns the error whose message
  names the first unrecognized name of the list. The configuration is not left as it
  was: the recognized names in front of the first unrecognized one have been applied
  (their flags are set), the names behind it have not, and no other field is changed.
\<close>

theorem ParseServicesList_unrecognized:
  assumes "\<exists>svc\<in>set (StartGrpcServices s). \<not> recognized svc"
  shows "ParseServicesList s =
     (s\<lparr>StartNodeService :=
          StartNodeService s \<or> ''node'' \<in> set (takeWhile recognized (StartGrpcServices s)),
        StartMeshService :=
          StartMeshService s \<or> ''mesh'' \<in> set (takeWhile recognized (StartGrpcServices s))\<rparr>,
      Some (errors_New (''unrecognized GRPC service requested: ''
              @ hd (dropWhile recognized (StartGrpcServices s)))))"
proof -
  let ?xs = "StartGrpcServices s"
  from assms have "dropWhile recognized ?xs \<noteq> []"
    by (auto simp: dropWhile_eq_Nil_conv)
  then obtain bad rest where dw: "dropWhile recognized ?xs = bad # rest"
    by (cases "dropWhile recognized ?xs") auto
  then have bad: "\<not> recognized bad"
    using hd_dropWhile [of recognized ?xs] by auto
  have known: "\<forall>svc\<in>set (takeWhile recognized ?xs). recognized svc"
    by (auto dest: set_takeWhileD)
  have "?xs = takeWhile recognized ?xs @ bad # rest"
    using dw takeWhile_dropWhile_id [of recognized ?xs] by simp
  then have "ParseServicesList_range ?xs s =
      ParseServicesList_range (takeWhile recognized ?xs @ bad # rest) s"
    by simp
  also have "\<dots> = ParseServicesList_range (bad # rest)
      (s\<lparr>StartNodeService := StartNodeService s \<or> ''node'' \<in> set (takeWhile recognized ?xs),
         StartMeshService := StartMeshService s \<or> ''mesh'' \<in> set (takeWhile recognized ?xs)\<rparr>)"
    by (rule ParseServicesList_range_append [OF known])
  finally show ?thesis
    using bad dw by (simp add: ParseServicesList_def recognized_def)
qed

theorem ParseServicesList_unrecognized_witness:
  "(\<exists>svc\<in>set (StartGrpcServices (DefaultConfig\<lparr>StartGrpcServices := [''node'', ''bogus'', ''mesh'']\<rparr>)).
       \<not> recognized svc)
   \<and> ParseServicesList (DefaultConfig\<lparr>StartGrpcServices := [''node'', ''bogus'', ''mesh'']\<rparr>) =
       (DefaultConfig\<lparr>StartGrpcServices := [''node'', ''bogus'', ''mesh''],
                      StartNodeService := True\<rparr>,
        Some (errors_New ''unrecognized GRPC service requested: bogus''))"
proof -
  let ?c = "DefaultConfig\<lparr>StartGrpcServices := [''node'', ''bogus'', ''mesh'']\<rparr>"
  have h: "\<exists>svc\<in>set (StartGrpcServices ?c). \<not> recognized svc"
    by (simp add: recognized_def)
  from ParseServicesList_unrecognized [OF h] h show ?thesis
    by (simp add: recognized_def config_defaults)
qed

text \<open>
  The claim as the specification words it (no flag is set when the list holds an
  unrecognized name) fails on the list \<open>mesh, bogus\<close>: the error names \<open>bogus\<close>, and the
  mesh flag, false before the call, is true after it.
\<close>

theorem ParseServicesList_partial_application:
  "''bogus'' \<in> set (StartGrpcServices (DefaultConfig\<lparr>StartGrpcServices := [''mesh'', ''bogus'']\<rparr>))
   \<and> \<not> recognized ''bogus''
   \<and> snd (ParseServicesList (DefaultConfig\<lparr>StartGrpcServices := [''mesh'', ''bogus'']\<rparr>)) =
       Some (errors_New ''unrecognized GRPC service requested: bogus'')
   \<and> \<not> StartMeshService (DefaultConfig\<lparr>StartGrpcServices := [''mesh'', ''bogus'']\<rparr>)
   \<and> StartMeshService (fst (ParseServicesList (DefaultConfig\<lparr>StartGrpcServices := [''mesh'', ''bogus'']\<rparr>)))
   \<and> fst (ParseServicesList (DefaultConfig\<lparr>StartGrpcServices := [''mesh'', ''bogus'']\<rparr>))
       \<noteq> DefaultConfig\<lparr>StartGrpcServices := [''mesh'', ''bogus'']\<rparr>"
  by (simp add: ParseServicesList_def recognized_def config_defaults)

text \<open>
  What \<open>ParseServicesList\<close> does on a list of recognized names: both kinds of flags are
  set, and the gateway test reads the node flag only.
\<close>

lemma ParseServicesList_recognized:
  assumes "\<forall>svc\<in>set (StartGrpcServices s). recognized svc"
  shows "ParseServicesList s =
     (s\<lparr>StartNodeService := StartNodeService s \<or> ''node'' \<in> set (StartGrpcServices s),
        StartMeshService := StartMeshService s \<or> ''mesh'' \<in> set (StartGrpcServices s)\<rparr>,
      if StartNewJSONServer s \<and> \<not> (StartNodeService s \<or> ''node'' \<in> set (StartGrpcServices s))
      then Some (errors_New
             ''must enable at least one GRPC service along with JSON gateway service'')
      else None)"
  using ParseServicesList_range_append [OF assms, of "[]" s]
  by (simp add: ParseServicesList_def)

text \<open>
  Claim C2. The gateway rule of the specification asks for at least one service next to
  the JSON gateway, and so do the comment and the error message of the code; the test of
  the code looks at \<open>StartNodeService\<close> alone. With the gateway requested and \<open>mesh\<close> the
  only requested service, \<open>ParseServicesList\<close> sets the mesh flag and still returns the
  error that no service is enabled.
\<close>

theorem ParseServicesList_gateway_with_mesh_only:
  "ParseServicesList (DefaultConfig\<lparr>StartGrpcServices := [''mesh''], StartNewJSONServer := True\<rparr>) =
     (DefaultConfig\<lparr>StartGrpcServices := [''mesh''], StartNewJSONServer := True,
                    StartMeshService := True\<rparr>,
      Some (errors_New ''must enable at least one GRPC service along with JSON gateway service''))"
  by (simp add: ParseServicesList_def config_defaults)

section \<open>Properties of the node service\<close>

text \<open>
  Claim C3. For every request, \<open>Status\<close> returns a response and no error, and the five
  fields of its status are the values of the five getters, each copied to its own field:
  \<open>ConnectedPeers\<close> from \<open>PeerCounter.PeerCount\<close>, \<open>IsSynced\<close> from \<open>Syncer.IsSynced\<close>,
  \<open>SyncedLayer\<close> from \<open>Tx.LatestLayer\<close>, \<open>TopLayer\<close> from \<open>GenTime.GetCurrentLayer\<close> and
  \<open>VerifiedLayer\<close> from \<open>Tx.LatestLayerInState\<close>.
\<close>

theorem NodeService_Status_snapshot:
  "NodeService_Status s request =
     Inr \<lparr>StatusResponse.Status = Some
       \<lparr>ConnectedPeers = PeerCount (PeerCounter s),
        NodeStatus.IsSynced = Syncer.IsSynced (Syncer s),
        SyncedLayer = Uint64 (LatestLayer (Tx s)),
        TopLayer = Uint64 (GetCurrentLayer (GenTime s)),
        VerifiedLayer = Uint64 (LatestLayerInState (Tx s))\<rparr>\<rparr>"
  by (simp add: NodeService_Status_def)

text \<open>The example of the specification: 3 peers, synced, layers 100, 98 and 101.\<close>

lemma NodeService_Status_example:
  "NodeService_Status
     \<lparr>Network = NetworkAPI,
      Tx = \<lparr>LatestLayer = LayerID 100, LatestLayerInState = LayerID 98\<rparr>,
      GenTime = \<lparr>GetCurrentLayer = LayerID 101\<rparr>,
      PeerCounter = \<lparr>PeerCount = 3\<rparr>,
      Syncer = \<lparr>Syncer.IsSynced = True\<rparr>\<rparr> StatusRequest =
   Inr \<lparr>StatusResponse.Status = Some
     \<lparr>ConnectedPeers = 3, NodeStatus.IsSynced = True, SyncedLayer = 100, TopLayer = 101,
      VerifiedLayer = 98\<rparr>\<rparr>"
  by (simp add: NodeService_Status_def)

text \<open>
  Claim C4. An \<open>Echo\<close> request that carries a message is answered with a message of the
  same value and no error; a request without a message is answered with the status error
  \<open>InvalidArgument\<close> and no response; and \<open>Echo\<close> returns an error exactly when the
  message is absent.
\<close>

theorem NodeService_Echo_payload:
  "NodeService_Echo s \<lparr>EchoRequest.Msg = Some msg\<rparr> =
     Inr \<lparr>EchoResponse.Msg = Some \<lparr>Value = Value msg\<rparr>\<rparr>
   \<and> NodeService_Echo s \<lparr>EchoRequest.Msg = None\<rparr> =
       Inl (status_Error InvalidArgument ''Must include `Msg`'')
   \<and> (isl (NodeService_Echo s inp) \<longleftrightarrow> EchoRequest.Msg inp = None)"
  by (simp add: NodeService_Echo_def status_Errorf_def split: option.splits)

lemma NodeService_Echo_ping:
  "NodeService_Echo s \<lparr>EchoRequest.Msg = Some \<lparr>Value = ''ping''\<rparr>\<rparr> =
     Inr \<lparr>EchoResponse.Msg = Some \<lparr>Value = ''ping''\<rparr>\<rparr>"
  by (simp add: NodeService_Echo_def)

text \<open>
  Claim C9. For every request and every stream, \<open>StatusStream\<close> and \<open>ErrorStream\<close> return
  nil and leave the connection as it was; on a stream that records the calls of \<open>Send\<close>,
  the record is still empty when they return.
\<close>

theorem NodeService_streams_send_nothing:
  "NodeService_StatusStream s request stream c = (None, c)
   \<and> NodeService_ErrorStream s request' stream' c = (None, c)
   \<and> NodeService_StatusStream s request (recording stream) (c, []) = (None, (c, []))
   \<and> NodeService_ErrorStream s request' (recording stream') (c, []) = (None, (c, []))"
  by (simp add: NodeService_StatusStream_def NodeService_ErrorStream_def)

section \<open>Properties of the smesher service\<close>

text \<open>
  Claim C6. For every backend: a \<open>StartSmeshing\<close> request without \<open>Coinbase\<close> is answered
  with the status error \<open>InvalidArgument\<close> and the backend is left in the state it was in
  (this holds for every implementation of the backend, also one that changes its state at
  each call, so the backend is not called); with a \<open>Coinbase\<close>, when the backend's
  \<open>StartSmeshing\<close> returns an error the handler returns the status error \<open>Internal\<close> with
  the message of that error; and when the backend returns nil the handler returns a
  response whose status code is OK.
\<close>

theorem SmesherService_StartSmeshing_outcomes:
  "(Coinbase inp = None \<longrightarrow>
      SmesherService_StartSmeshing BytesToAddress s inp b =
        (Inl (status_Error InvalidArgument ''`Coinbase` must be provided''), b))
   \<and> (Coinbase inp = Some coinbase
        \<and> StartSmeshing (smeshing s) (BytesToAddress (Address coinbase)) b = (Some err, b') \<longrightarrow>
      SmesherService_StartSmeshing BytesToAddress s inp b =
        (Inl (status_Error Internal (Error err)), b'))
   \<and> (Coinbase inp = Some coinbase
        \<and> StartSmeshing (smeshing s) (BytesToAddress (Address coinbase)) b = (None, b') \<longrightarrow>
      SmesherService_StartSmeshing BytesToAddress s inp b =
        (Inr \<lparr>StartSmeshingResponse.Status = Some \<lparr>Code = Code_OK\<rparr>\<rparr>, b'))"
  by (simp add: SmesherService_StartSmeshing_def status_Errorf_def)

text \<open>
  The three cases on a backend that counts the calls of \<open>StartSmeshing\<close> and refuses the
  empty address: without \<open>Coinbase\<close> the count stays 0.
\<close>

theorem SmesherService_StartSmeshing_outcomes_witness:
  "SmesherService_StartSmeshing (\<lambda>bytes. bytes)
      \<lparr>post = \<lparr>PostComputeProviders = [], PostDataCreationProgressStream = []\<rparr>,
       smeshing = \<lparr>StartSmeshing = (\<lambda>addr calls.
          (if addr = [] then Some (ErrorValue ''no coinbase address'') else None, Suc calls))\<rparr>\<rparr>
      \<lparr>Coinbase = None\<rparr> (0::nat) =
     (Inl (status_Error InvalidArgument ''`Coinbase` must be provided''), 0)
   \<and> SmesherService_StartSmeshing (\<lambda>bytes. bytes)
      \<lparr>post = \<lparr>PostComputeProviders = [], PostDataCreationProgressStream = []\<rparr>,
       smeshing = \<lparr>StartSmeshing = (\<lambda>addr calls.
          (if addr = [] then Some (ErrorValue ''no coinbase address'') else None, Suc calls))\<rparr>\<rparr>
      \<lparr>Coinbase = Some \<lparr>Address = []\<rparr>\<rparr> (0::nat) =
     (Inl (status_Error Internal ''no coinbase address''), 1)
   \<and> SmesherService_StartSmeshing (\<lambda>bytes. bytes)
      \<lparr>post = \<lparr>PostComputeProviders = [], PostDataCreationProgressStream = []\<rparr>,
       smeshing = \<lparr>StartSmeshing = (\<lambda>addr calls.
          (if addr = [] then Some (ErrorValue ''no coinbase address'') else None, Suc calls))\<rparr>\<rparr>
      \<lparr>Coinbase = Some \<lparr>Address = [1, 2]\<rparr>\<rparr> (0::nat) =
     (Inr \<lparr>StartSmeshingResponse.Status = Some \<lparr>Code = 0\<rparr>\<rparr>, 1)"
proof -
  let ?s = "\<lparr>post = \<lparr>PostComputeProviders = [], PostDataCreationProgressStream = []\<rparr>,
       smeshing = \<lparr>StartSmeshing = (\<lambda>(addr :: 8 word list) (calls :: nat).
          (if addr = [] then Some (ErrorValue ''no coinbase address'') else None, Suc calls))\<rparr>\<rparr>"
  let ?id = "\<lambda>bytes :: 8 word list. bytes"
  have absent: "Coinbase \<lparr>Coinbase = None\<rparr> = None" by simp
  have failing: "Coinbase \<lparr>Coinbase = Some \<lparr>Address = []\<rparr>\<rparr> = Some \<lparr>Address = []\<rparr>
      \<and> StartSmeshing (smeshing ?s) (?id (Address \<lparr>Address = []\<rparr>)) 0 =
          (Some (ErrorValue ''no coinbase address''), 1)"
    by simp
  have starting: "Coinbase \<lparr>Coinbase = Some \<lparr>Address = [1, 2]\<rparr>\<rparr> = Some \<lparr>Address = [1, 2]\<rparr>
      \<and> StartSmeshing (smeshing ?s) (?id (Address \<lparr>Address = [1, 2]\<rparr>)) 0 = (None, 1)"
    by simp
  from SmesherService_StartSmeshing_outcomes
         [where inp = "\<lparr>Coinbase = None\<rparr>" and BytesToAddress = ?id and s = ?s and b = 0]
       SmesherService_StartSmeshing_outcomes
         [where inp = "\<lparr>Coinbase = Some \<lparr>Address = []\<rparr>\<rparr>" and BytesToAddress = ?id and s = ?s
            and b = 0 and coinbase = "\<lparr>Address = []\<rparr>"
            and err = "ErrorValue ''no coinbase address''" and b' = 1]
       SmesherService_StartSmeshing_outcomes
         [where inp = "\<lparr>Coinbase = Some \<lparr>Address = [1, 2]\<rparr>\<rparr>" and BytesToAddress = ?id and s = ?s
            and b = 0 and coinbase = "\<lparr>Address = [1, 2]\<rparr>" and b' = 1]
       absent failing starting
  show ?thesis by (simp add: Code_OK_def)
qed

text \<open>
  Claim C7. For every input, \<open>MinGas\<close> and \<open>SetMinGas\<close> return the status error
  \<open>Unimplemented\<close>, and never a response.
\<close>

theorem SmesherService_MinGas_unimplemented:
  "SmesherService_MinGas s inp = Inl (status_Error Unimplemented ''this endpoint is not implemented'')
   \<and> SmesherService_SetMinGas s inp' =
       Inl (status_Error Unimplemented ''this endpoint is not implemented'')
   \<and> isl (SmesherService_MinGas s inp) \<and> isl (SmesherService_SetMinGas s inp')"
  by (simp add: SmesherService_MinGas_def SmesherService_SetMinGas_def status_Errorf_def)

text \<open>The loop of \<open>PostComputeProviders\<close>: the first failing benchmark ends it.\<close>

lemma PostComputeProviders_range_fail:
  "\<forall>q\<in>set ok. snd (Benchmark q) = None \<Longrightarrow> snd (Benchmark p) = Some err \<Longrightarrow>
   PostComputeProviders_range (ok @ p # rest) i res = Inl (Passed err)"
proof (induction ok arbitrary: i res)
  case Nil
  then show ?case by (cases "Benchmark p") simp
next
  case (Cons q ok)
  then show ?case by (cases "Benchmark q") simp
qed

text \<open>
  When no benchmark fails, the loop has filled the slice from index \<open>i\<close> on with one entry
  for each remaining provider, in order.
\<close>

lemma PostComputeProviders_range_ok:
  assumes "\<forall>q\<in>set ps. snd (Benchmark q) = None" and "i + length ps = length res"
  shows "PostComputeProviders_range ps i res =
     Inr (take i res @
          map (\<lambda>p. Some \<lparr>PostComputeProvider.Id = ucast (ComputeProvider.Id p),
                          PostComputeProvider.Model = ComputeProvider.Model p,
                          ComputeApi = ucast (ComputeAPI p),
                          Performance = ucast (fst (Benchmark p))\<rparr>) ps)"
  using assms
proof (induction ps arbitrary: i res)
  case Nil
  then show ?case by simp
next
  case (Cons p ps)
  obtain hs where b: "Benchmark p = (hs, None)"
    using Cons.prems(1) by (cases "Benchmark p") simp
  have i: "i < length res" using Cons.prems(2) by simp
  let ?e = "Some \<lparr>PostComputeProvider.Id = ucast (ComputeProvider.Id p),
                   PostComputeProvider.Model = ComputeProvider.Model p,
                   ComputeApi = ucast (ComputeAPI p),
                   Performance = ucast hs\<rparr>"
  have t: "take (Suc i) (res[i := x]) = take i res @ [x]" for x
    using i by (simp add: take_Suc_conv_app_nth)
  have "PostComputeProviders_range (p # ps) i res =
          PostComputeProviders_range ps (Suc i) (res[i := ?e])"
    using b by simp
  also have "\<dots> = Inr (take (Suc i) (res[i := ?e]) @
          map (\<lambda>p. Some \<lparr>PostComputeProvider.Id = ucast (ComputeProvider.Id p),
                          PostComputeProvider.Model = ComputeProvider.Model p,
                          ComputeApi = ucast (ComputeAPI p),
                          Performance = ucast (fst (Benchmark p))\<rparr>) ps)"
    using Cons.prems by (intro Cons.IH) simp_all
  finally show ?case using b by (simp add: t)
qed

text \<open>The conversion \<open>uint32(p.Id)\<close> keeps every id below \<open>2 ^ 32\<close>.\<close>

lemma uint32_of_small_id:
  "unat (ComputeProvider.Id p) < 2 ^ 32 \<Longrightarrow>
   unat (ucast (ComputeProvider.Id p) :: 32 word) = unat (ComputeProvider.Id p)"
  by (simp add: unsigned_ucast_eq take_bit_nat_eq_self)

text \<open>
  Claim C5. For every provider list of the backend: if the benchmark of some provider
  fails, \<open>PostComputeProviders\<close> returns the error of the first failing benchmark and no
  response; if every benchmark succeeds, it returns one entry for each provider, in the
  order of the backend's list, with the provider's id, model and compute API class and
  the throughput of its benchmark, each as converted by the handler (\<open>uint32\<close> for the id,
  the \<open>int32\<close> enumeration for the class, \<open>uint64\<close> for the throughput).
\<close>

theorem SmesherService_PostComputeProviders_all_or_nothing:
  "((\<exists>q\<in>set (PostComputeProviders (post s)). snd (Benchmark q) \<noteq> None) \<longrightarrow>
      SmesherService_PostComputeProviders s inp =
        Inl (Passed (the (snd (Benchmark
          (hd (dropWhile (\<lambda>q. snd (Benchmark q) = None) (PostComputeProviders (post s)))))))))
   \<and> ((\<forall>q\<in>set (PostComputeProviders (post s)). snd (Benchmark q) = None) \<longrightarrow>
      SmesherService_PostComputeProviders s inp =
        Inr \<lparr>PostComputeProvider =
          map (\<lambda>p. Some \<lparr>PostComputeProvider.Id = ucast (ComputeProvider.Id p),
                          PostComputeProvider.Model = ComputeProvider.Model p,
                          ComputeApi = ucast (ComputeAPI p),
                          Performance = ucast (fst (Benchmark p))\<rparr>)
              (PostComputeProviders (post s))\<rparr>)"
proof (intro conjI impI)
  let ?ps = "PostComputeProviders (post s)"
  let ?good = "\<lambda>q. snd (Benchmark q) = None"
  assume "\<exists>q\<in>set ?ps. snd (Benchmark q) \<noteq> None"
  then have "dropWhile ?good ?ps \<noteq> []"
    by (auto simp: dropWhile_eq_Nil_conv)
  then obtain p rest where dw: "dropWhile ?good ?ps = p # rest"
    by (cases "dropWhile ?good ?ps") auto
  then have "\<not> ?good p"
    using hd_dropWhile [of ?good ?ps] by auto
  then obtain err where err: "snd (Benchmark p) = Some err" by auto
  have good: "\<forall>q\<in>set (takeWhile ?good ?ps). snd (Benchmark q) = None"
    by (auto dest: set_takeWhileD)
  have split: "?ps = takeWhile ?good ?ps @ p # rest"
    using dw takeWhile_dropWhile_id [of ?good ?ps] by simp
  have "PostComputeProviders_range ?ps 0 (replicate (length ?ps) None) =
        PostComputeProviders_range (takeWhile ?good ?ps @ p # rest) 0 (replicate (length ?ps) None)"
    using split by simp
  also have "\<dots> = Inl (Passed err)"
    by (rule PostComputeProviders_range_fail [OF good err])
  finally show "SmesherService_PostComputeProviders s inp =
        Inl (Passed (the (snd (Benchmark (hd (dropWhile ?good ?ps))))))"
    using dw err by (simp add: SmesherService_PostComputeProviders_def)
next
  let ?ps = "PostComputeProviders (post s)"
  assume "\<forall>q\<in>set ?ps. snd (Benchmark q) = None"
  then have "PostComputeProviders_range ?ps 0 (replicate (length ?ps) None) =
      Inr (take 0 (replicate (length ?ps) None) @
          map (\<lambda>p. Some \<lparr>PostComputeProvider.Id = ucast (ComputeProvider.Id p),
                          PostComputeProvider.Model = ComputeProvider.Model p,
                          ComputeApi = ucast (ComputeAPI p),
                          Performance = ucast (fst (Benchmark p))\<rparr>) ?ps)"
    by (intro PostComputeProviders_range_ok) simp_all
  then show "SmesherService_PostComputeProviders s inp =
        Inr \<lparr>PostComputeProvider =
          map (\<lambda>p. Some \<lparr>PostComputeProvider.Id = ucast (ComputeProvider.Id p),
                          PostComputeProvider.Model = ComputeProvider.Model p,
                          ComputeApi = ucast (ComputeAPI p),
                          Performance = ucast (fst (Benchmark p))\<rparr>) ?ps\<rparr>"
    by (simp add: SmesherService_PostComputeProviders_def)
qed

text \<open>
  Three providers of which the second fails its benchmark, and the list without it.
\<close>

theorem SmesherService_PostComputeProviders_all_or_nothing_witness:
  "SmesherService_PostComputeProviders
      \<lparr>post = \<lparr>PostComputeProviders =
          [\<lparr>ComputeProvider.Id = 0, ComputeProvider.Model = ''cpu'', ComputeAPI = 1,
            Benchmark = (1000, None)\<rparr>,
           \<lparr>ComputeProvider.Id = 1, ComputeProvider.Model = ''gpu'', ComputeAPI = 2,
            Benchmark = (0, Some (ErrorValue ''benchmark failed''))\<rparr>,
           \<lparr>ComputeProvider.Id = 2, ComputeProvider.Model = ''gpu2'', ComputeAPI = 3,
            Benchmark = (7000, None)\<rparr>],
         PostDataCreationProgressStream = []\<rparr>,
       smeshing = \<lparr>StartSmeshing = (\<lambda>(addr :: unit) (b :: unit). (None, b))\<rparr>\<rparr> () =
     Inl (Passed (ErrorValue ''benchmark failed''))
   \<and> SmesherService_PostComputeProviders
      \<lparr>post = \<lparr>PostComputeProviders =
          [\<lparr>ComputeProvider.Id = 0, ComputeProvider.Model = ''cpu'', ComputeAPI = 1,
            Benchmark = (1000, None)\<rparr>,
           \<lparr>ComputeProvider.Id = 2, ComputeProvider.Model = ''gpu2'', ComputeAPI = 3,
            Benchmark = (7000, None)\<rparr>],
         PostDataCreationProgressStream = []\<rparr>,
       smeshing = \<lparr>StartSmeshing = (\<lambda>(addr :: unit) (b :: unit). (None, b))\<rparr>\<rparr> () =
     Inr \<lparr>PostComputeProvider =
       [Some \<lparr>PostComputeProvider.Id = 0, PostComputeProvider.Model = ''cpu'', ComputeApi = 1,
              Performance = 1000\<rparr>,
        Some \<lparr>PostComputeProvider.Id = 2, PostComputeProvider.Model = ''gpu2'', ComputeApi = 3,
              Performance = 7000\<rparr>]\<rparr>"
proof -
  let ?p0 = "\<lparr>ComputeProvider.Id = 0, ComputeProvider.Model = ''cpu'', ComputeAPI = 1,
            Benchmark = (1000, None)\<rparr>"
  let ?p1 = "\<lparr>ComputeProvider.Id = 1, ComputeProvider.Model = ''gpu'', ComputeAPI = 2,
            Benchmark = (0, Some (ErrorValue ''benchmark failed''))\<rparr>"
  let ?p2 = "\<lparr>ComputeProvider.Id = 2, ComputeProvider.Model = ''gpu2'', ComputeAPI = 3,
            Benchmark = (7000, None)\<rparr>"
  let ?s = "\<lambda>ps. \<lparr>post = \<lparr>PostComputeProviders = ps, PostDataCreationProgressStream = []\<rparr>,
       smeshing = \<lparr>StartSmeshing = (\<lambda>(addr :: unit) (b :: unit). (None, b))\<rparr>\<rparr>"
  have some_fails: "\<exists>q\<in>set (PostComputeProviders (post (?s [?p0, ?p1, ?p2]))). snd (Benchmark q) \<noteq> None"
    by simp
  have none_fails: "\<forall>q\<in>set (PostComputeProviders (post (?s [?p0, ?p2]))). snd (Benchmark q) = None"
    by simp
  from SmesherService_PostComputeProviders_all_or_nothing [of "?s [?p0, ?p1, ?p2]" "()"]
       SmesherService_PostComputeProviders_all_or_nothing [of "?s [?p0, ?p2]" "()"]
       some_fails none_fails
  show ?thesis by simp
qed

text \<open>Unfolding \<open>after_sends\<close> and the recording stream by one call.\<close>

lemma after_sends_Nil: "after_sends stream [] c = c"
  by (simp add: after_sends_def)

lemma after_sends_Cons: "after_sends stream (m # ms) c = after_sends stream ms (snd (stream m c))"
  by (simp add: after_sends_def)

lemma recording_apply:
  "recording stream m (c, sent) = (fst (stream m c), (snd (stream m c), sent @ [m]))"
  by (simp add: recording_def split: prod.splits)

text \<open>
  The loop of the progress stream on a recording stream: when every \<open>Send\<close> returns nil,
  all responses are sent; when the \<open>Send\<close> for the status at index \<open>n\<close> is the first to
  return an error, the responses up to that one are sent and no later one.
\<close>

lemma PostDataCreationProgressStream_range_all_sent:
  assumes "\<forall>i<length evs.
      fst (stream \<lparr>PostDataCreationProgressStreamResponse.Status = Some (statusToPbStatus (evs ! i))\<rparr>
             (after_sends stream
                (map (\<lambda>status. \<lparr>PostDataCreationProgressStreamResponse.Status =
                                    Some (statusToPbStatus status)\<rparr>) (take i evs)) c)) = None"
  shows "PostDataCreationProgressStream_range evs (recording stream) (c, sent) =
     (None,
      (after_sends stream
         (map (\<lambda>status. \<lparr>PostDataCreationProgressStreamResponse.Status =
                             Some (statusToPbStatus status)\<rparr>) evs) c,
       sent @ map (\<lambda>status. \<lparr>PostDataCreationProgressStreamResponse.Status =
                             Some (statusToPbStatus status)\<rparr>) evs))"
  using assms
proof (induction evs arbitrary: c sent)
  case Nil
  then show ?case by (simp add: after_sends_Nil)
next
  case (Cons ev evs)
  let ?r = "\<lparr>PostDataCreationProgressStreamResponse.Status = Some (statusToPbStatus ev)\<rparr>"
  from Cons.prems [rule_format, of 0] have first: "fst (stream ?r c) = None"
    by (simp add: after_sends_Nil)
  have rest: "\<forall>i<length evs.
      fst (stream \<lparr>PostDataCreationProgressStreamResponse.Status = Some (statusToPbStatus (evs ! i))\<rparr>
             (after_sends stream
                (map (\<lambda>status. \<lparr>PostDataCreationProgressStreamResponse.Status =
                                    Some (statusToPbStatus status)\<rparr>) (take i evs))
                (snd (stream ?r c)))) = None"
  proof (intro allI impI)
    fix i assume "i < length evs"
    then have "Suc i < length (ev # evs)" by simp
    from Cons.prems [rule_format, OF this] show "fst (stream \<lparr>PostDataCreationProgressStreamResponse.Status = Some (statusToPbStatus (evs ! i))\<rparr>
             (after_sends stream
                (map (\<lambda>status. \<lparr>PostDataCreationProgressStreamResponse.Status =
                                    Some (statusToPbStatus status)\<rparr>) (take i evs))
                (snd (stream ?r c)))) = None"
      by (simp add: after_sends_Cons)
  qed
  from Cons.IH [OF rest, of "sent @ [?r]"] first show ?case
    by (simp add: recording_apply after_sends_Cons)
qed

lemma PostDataCreationProgressStream_range_stops:
  assumes "n < length evs"
    and "\<forall>i<n.
      fst (stream \<lparr>PostDataCreationProgressStreamResponse.Status = Some (statusToPbStatus (evs ! i))\<rparr>
             (after_sends stream
                (map (\<lambda>status. \<lparr>PostDataCreationProgressStreamResponse.Status =
                                    Some (statusToPbStatus status)\<rparr>) (take i evs)) c)) = None"
    and "fst (stream \<lparr>PostDataCreationProgressStreamResponse.Status = Some (statusToPbStatus (evs ! n))\<rparr>
             (after_sends stream
                (map (\<lambda>status. \<lparr>PostDataCreationProgressStreamResponse.Status =
                                    Some (statusToPbStatus status)\<rparr>) (take n evs)) c)) = Some e"
  shows "PostDataCreationProgressStream_range evs (recording stream) (c, sent) =
     (Some (Passed e),
      (after_sends stream
         (map (\<lambda>status. \<lparr>PostDataCreationProgressStreamResponse.Status =
                             Some (statusToPbStatus status)\<rparr>) (take (Suc n) evs)) c,
       sent @ map (\<lambda>status. \<lparr>PostDataCreationProgressStreamResponse.Status =
                             Some (statusToPbStatus status)\<rparr>) (take (Suc n) evs)))"
  using assms
proof (induction evs arbitrary: c sent n)
  case Nil
  then show ?case by simp
next
  case (Cons ev evs)
  let ?r = "\<lparr>PostDataCreationProgressStreamResponse.Status = Some (statusToPbStatus ev)\<rparr>"
  show ?case
  proof (cases n)
    case 0
    with Cons.prems(3) have "fst (stream ?r c) = Some e"
      by (simp add: after_sends_Nil)
    with 0 show ?thesis
      by (simp add: recording_apply after_sends_Cons after_sends_Nil)
  next
    case (Suc k)
    from Cons.prems(2) [rule_format, of 0] Suc have first: "fst (stream ?r c) = None"
      by (simp add: after_sends_Nil)
    have k: "k < length evs" using Cons.prems(1) Suc by simp
    have before: "\<forall>i<k.
      fst (stream \<lparr>PostDataCreationProgressStreamResponse.Status = Some (statusToPbStatus (evs ! i))\<rparr>
             (after_sends stream
                (map (\<lambda>status. \<lparr>PostDataCreationProgressStreamResponse.Status =
                                    Some (statusToPbStatus status)\<rparr>) (take i evs))
                (snd (stream ?r c)))) = None"
    proof (intro allI impI)
      fix i assume "i < k"
      then have "Suc i < n" using Suc by simp
      from Cons.prems(2) [rule_format, OF this] show "fst (stream \<lparr>PostDataCreationProgressStreamResponse.Status = Some (statusToPbStatus (evs ! i))\<rparr>
             (after_sends stream
                (map (\<lambda>status. \<lparr>PostDataCreationProgressStreamResponse.Status =
                                    Some (statusToPbStatus status)\<rparr>) (take i evs))
                (snd (stream ?r c)))) = None"
        by (simp add: after_sends_Cons)
    qed
    have failing: "fst (stream \<lparr>PostDataCreationProgressStreamResponse.Status = Some (statusToPbStatus (evs ! k))\<rparr>
             (after_sends stream
                (map (\<lambda>status. \<lparr>PostDataCreationProgressStreamResponse.Status =
                                    Some (statusToPbStatus status)\<rparr>) (take k evs))
                (snd (stream ?r c)))) = Some e"
      using Cons.prems(3) Suc by (simp add: after_sends_Cons)
    from Cons.IH [OF k before failing, of "sent @ [?r]"] first Suc show ?thesis
      by (simp add: recording_apply after_sends_Cons)
  qed
qed

text \<open>
  Claim C8. Let the progress channel deliver a finite sequence of statuses and be closed.
  On a stream that records the calls of \<open>Send\<close>: if every \<open>Send\<close> returns nil, the handler
  returns nil and has called \<open>Send\<close> once for each status, in the order of the channel;
  if the \<open>Send\<close> for the status at index \<open>n\<close> is the first to return an error, the handler
  returns that error and has called \<open>Send\<close> for the statuses up to index \<open>n\<close> and for none
  behind it. Each response carries the bytes written, the error type (as the 32-bit
  enumeration value), the error message and the in-progress flag of its status.
\<close>

theorem SmesherService_PostDataCreationProgressStream_sends:
  "(let rs = map (\<lambda>status. \<lparr>PostDataCreationProgressStreamResponse.Status =
                               Some (statusToPbStatus status)\<rparr>)
                 (PostDataCreationProgressStream (post s));
        run = SmesherService_PostDataCreationProgressStream s request (recording stream) (c, []);
        returns = (\<lambda>i. fst (stream (rs ! i) (after_sends stream (take i rs) c)))
    in ((\<forall>i<length rs. returns i = None) \<longrightarrow>
          run = (None, (after_sends stream rs c, rs)))
     \<and> (\<forall>n e. n < length rs \<and> (\<forall>i<n. returns i = None) \<and> returns n = Some e \<longrightarrow>
          run = (Some (Passed e), (after_sends stream (take (Suc n) rs) c, take (Suc n) rs))))
   \<and> pb_PostStatus.BytesWritten (statusToPbStatus status) = PostStatus.BytesWritten status
   \<and> pb_PostStatus.ErrorType (statusToPbStatus status) = ucast (PostStatus.ErrorType status)
   \<and> pb_PostStatus.ErrorMessage (statusToPbStatus status) = PostStatus.ErrorMessage status
   \<and> pb_PostStatus.InitInProgress (statusToPbStatus status) = PostStatus.InitInProgress status"
proof -
  let ?f = "\<lambda>status. \<lparr>PostDataCreationProgressStreamResponse.Status =
                               Some (statusToPbStatus status)\<rparr>"
  let ?evs = "PostDataCreationProgressStream (post s)"
  let ?ret = "\<lambda>i. fst (stream (map ?f ?evs ! i) (after_sends stream (take i (map ?f ?evs)) c))"
  have ret: "?ret i = fst (stream (?f (?evs ! i)) (after_sends stream (map ?f (take i ?evs)) c))"
    if "i < length ?evs" for i
    using that by (simp add: take_map)
  have a: "SmesherService_PostDataCreationProgressStream s request (recording stream) (c, []) =
      (None, (after_sends stream (map ?f ?evs) c, map ?f ?evs))"
    if "\<forall>i<length (map ?f ?evs). ?ret i = None"
  proof -
    from that have "\<forall>i<length ?evs.
        fst (stream (?f (?evs ! i)) (after_sends stream (map ?f (take i ?evs)) c)) = None"
      using ret by simp
    from PostDataCreationProgressStream_range_all_sent [OF this, of "[]"] show ?thesis
      by (simp add: SmesherService_PostDataCreationProgressStream_def)
  qed
  have b: "SmesherService_PostDataCreationProgressStream s request (recording stream) (c, []) =
      (Some (Passed e), (after_sends stream (take (Suc n) (map ?f ?evs)) c, take (Suc n) (map ?f ?evs)))"
    if "n < length (map ?f ?evs) \<and> (\<forall>i<n. ?ret i = None) \<and> ?ret n = Some e" for n e
  proof -
    from that have n: "n < length ?evs" by simp
    from that n have before: "\<forall>i<n.
        fst (stream (?f (?evs ! i)) (after_sends stream (map ?f (take i ?evs)) c)) = None"
      using ret by simp
    from that n have failing:
        "fst (stream (?f (?evs ! n)) (after_sends stream (map ?f (take n ?evs)) c)) = Some e"
      using ret by simp
    from PostDataCreationProgressStream_range_stops [OF n before failing, of "[]"] show ?thesis
      by (simp add: SmesherService_PostDataCreationProgressStream_def take_map)
  qed
  have fields: "pb_PostStatus.BytesWritten (statusToPbStatus status) = PostStatus.BytesWritten status
   \<and> pb_PostStatus.ErrorType (statusToPbStatus status) = ucast (PostStatus.ErrorType status)
   \<and> pb_PostStatus.ErrorMessage (statusToPbStatus status) = PostStatus.ErrorMessage status
   \<and> pb_PostStatus.InitInProgress (statusToPbStatus status) = PostStatus.InitInProgress status"
    by (simp add: statusToPbStatus_def)
  from a b fields show ?thesis
    unfolding Let_def by blast
qed

text \<open>
  Three statuses on a connection that accepts one message and then fails (two calls of
  \<open>Send\<close>, the third status is not sent), and on a connection that accepts them all.
\<close>

theorem SmesherService_PostDataCreationProgressStream_sends_witness:
  "SmesherService_PostDataCreationProgressStream
      \<lparr>post = \<lparr>PostComputeProviders = [],
         PostDataCreationProgressStream =
           map (\<lambda>n. \<lparr>LastOptions = None, PostStatus.InitInProgress = True,
                       PostStatus.BytesWritten = n, PostStatus.ErrorType = 0,
                       PostStatus.ErrorMessage = []\<rparr>) [10, 20, 30]\<rparr>,
       smeshing = \<lparr>StartSmeshing = (\<lambda>(addr :: unit) (b :: unit). (None, b))\<rparr>\<rparr> ()
      (recording (\<lambda>m accepted. if accepted < Suc 0 then (None, Suc accepted)
                                 else (Some (ErrorValue ''transport is closing''), accepted)))
      (0, []) =
     (Some (Passed (ErrorValue ''transport is closing'')),
      (Suc 0,
       map (\<lambda>n. \<lparr>PostDataCreationProgressStreamResponse.Status = Some
              \<lparr>pb_PostStatus.InitInProgress = True, pb_PostStatus.BytesWritten = n,
               pb_PostStatus.ErrorType = 0, pb_PostStatus.ErrorMessage = [],
               PostData = None\<rparr>\<rparr>) [10, 20]))
   \<and> SmesherService_PostDataCreationProgressStream
      \<lparr>post = \<lparr>PostComputeProviders = [],
         PostDataCreationProgressStream =
           map (\<lambda>n. \<lparr>LastOptions = None, PostStatus.InitInProgress = True,
                       PostStatus.BytesWritten = n, PostStatus.ErrorType = 0,
                       PostStatus.ErrorMessage = []\<rparr>) [10, 20, 30]\<rparr>,
       smeshing = \<lparr>StartSmeshing = (\<lambda>(addr :: unit) (b :: unit). (None, b))\<rparr>\<rparr> ()
      (recording (\<lambda>m accepted. (None, Suc accepted)))
      (0, []) =
     (None,
      (Suc (Suc (Suc 0)),
       map (\<lambda>n. \<lparr>PostDataCreationProgressStreamResponse.Status = Some
              \<lparr>pb_PostStatus.InitInProgress = True, pb_PostStatus.BytesWritten = n,
               pb_PostStatus.ErrorType = 0, pb_PostStatus.ErrorMessage = [],
               PostData = None\<rparr>\<rparr>) [10, 20, 30]))"
proof -
  let ?s = "\<lparr>post = \<lparr>PostComputeProviders = [],
         PostDataCreationProgressStream =
           map (\<lambda>n. \<lparr>LastOptions = None, PostStatus.InitInProgress = True,
                       PostStatus.BytesWritten = n, PostStatus.ErrorType = 0,
                       PostStatus.ErrorMessage = []\<rparr>) [10, 20, 30]\<rparr>,
       smeshing = \<lparr>StartSmeshing = (\<lambda>(addr :: unit) (b :: unit). (None, b))\<rparr>\<rparr>"
  let ?closing = "\<lambda>(m :: PostDataCreationProgressStreamResponse) accepted.
      if accepted < Suc 0 then (None, Suc accepted)
      else (Some (ErrorValue ''transport is closing''), accepted)"
  let ?open = "\<lambda>(m :: PostDataCreationProgressStreamResponse) (accepted :: nat).
      (None :: error option, Suc accepted)"
  note thm1 = SmesherService_PostDataCreationProgressStream_sends
      [where s = ?s and request = "()" and stream = ?closing and c = 0, unfolded Let_def,
       THEN conjunct1, THEN conjunct2, rule_format,
       of "Suc 0" "ErrorValue ''transport is closing''"]
  note thm2 = SmesherService_PostDataCreationProgressStream_sends
      [where s = ?s and request = "()" and stream = ?open and c = 0, unfolded Let_def,
       THEN conjunct1, THEN conjunct1, rule_format]
  have a: "SmesherService_PostDataCreationProgressStream ?s () (recording ?closing) (0, []) =
     (Some (Passed (ErrorValue ''transport is closing'')),
      (Suc 0,
       map (\<lambda>n. \<lparr>PostDataCreationProgressStreamResponse.Status = Some
              \<lparr>pb_PostStatus.InitInProgress = True, pb_PostStatus.BytesWritten = n,
               pb_PostStatus.ErrorType = 0, pb_PostStatus.ErrorMessage = [],
               PostData = None\<rparr>\<rparr>) [10, 20]))"
    using thm1 by (simp add: after_sends_def statusToPbStatus_def less_Suc_eq)
  have b: "SmesherService_PostDataCreationProgressStream ?s () (recording ?open) (0, []) =
     (None,
      (Suc (Suc (Suc 0)),
       map (\<lambda>n. \<lparr>PostDataCreationProgressStreamResponse.Status = Some
              \<lparr>pb_PostStatus.InitInProgress = True, pb_PostStatus.BytesWritten = n,
               pb_PostStatus.ErrorType = 0, pb_PostStatus.ErrorMessage = [],
               PostData = None\<rparr>\<rparr>) [10, 20, 30]))"
    using thm2 by (simp add: after_sends_def statusToPbStatus_def)
  from a b show ?thesis by simp
qed

end
